theory Spec2Isabelle
  imports Main "HOL-Library.AList"
begin

section \<open>Text\<close>

text \<open>
  Python strings are modelled as \<^typ>\<open>string\<close>: the bytes of the text in UTF-8,
  taken to be valid UTF-8. The letters of \<open>isalpha\<close> and \<open>upper\<close> are the ASCII
  letters: a byte from \<open>0x80\<close> on (part of a character outside ASCII) counts as no
  letter and is left alone by \<open>upper\<close>. White space is Python's whole set, the
  characters outside ASCII by their encodings.
\<close>

definition ord :: "char \<Rightarrow> int" where
  "ord c = of_char c"

definition is_lower :: "char \<Rightarrow> bool" where
  "is_lower c = (ord (CHR ''a'') \<le> ord c \<and> ord c \<le> ord (CHR ''z''))"

definition is_upper :: "char \<Rightarrow> bool" where
  "is_upper c = (ord (CHR ''A'') \<le> ord c \<and> ord c \<le> ord (CHR ''Z''))"

definition isalpha :: "char \<Rightarrow> bool" where
  "isalpha c = (is_upper c \<or> is_lower c)"

definition upper_char :: "char \<Rightarrow> char" where
  "upper_char c = (if is_lower c then char_of (ord c - 32) else c)"

definition upper :: "string \<Rightarrow> string" where
  "upper s = map upper_char s"

text \<open>
  \<open>str.strip()\<close>: the characters for which \<open>str.isspace()\<close> holds are removed from
  both ends. In ASCII these are tab, line feed, vertical tab, form feed, carriage
  return, the four separators \<open>0x1c\<close> to \<open>0x1f\<close> and the blank (\<open>is_space\<close>). Outside
  ASCII they are \<open>U+0085\<close>, \<open>U+00A0\<close>, \<open>U+1680\<close>, \<open>U+2000\<close> to \<open>U+200A\<close>,
  \<open>U+2028\<close>, \<open>U+2029\<close>, \<open>U+202F\<close>, \<open>U+205F\<close> and \<open>U+3000\<close>, listed in
  \<open>space_codes\<close> by their UTF-8 bytes. In valid UTF-8 a string begins (ends) with one
  of these characters exactly when it begins (ends) with the bytes of its encoding.
\<close>

definition is_space :: "char \<Rightarrow> bool" where
  "is_space c = ((9 \<le> ord c \<and> ord c \<le> 13) \<or> (28 \<le> ord c \<and> ord c \<le> 32))"

definition space_codes :: "string list" where
  "space_codes =
     [[CHR 0xC2, CHR 0x85], [CHR 0xC2, CHR 0xA0], [CHR 0xE1, CHR 0x9A, CHR 0x80],
      [CHR 0xE2, CHR 0x80, CHR 0x80], [CHR 0xE2, CHR 0x80, CHR 0x81],
      [CHR 0xE2, CHR 0x80, CHR 0x82], [CHR 0xE2, CHR 0x80, CHR 0x83],
      [CHR 0xE2, CHR 0x80, CHR 0x84], [CHR 0xE2, CHR 0x80, CHR 0x85],
      [CHR 0xE2, CHR 0x80, CHR 0x86], [CHR 0xE2, CHR 0x80, CHR 0x87],
      [CHR 0xE2, CHR 0x80, CHR 0x88], [CHR 0xE2, CHR 0x80, CHR 0x89],
      [CHR 0xE2, CHR 0x80, CHR 0x8A], [CHR 0xE2, CHR 0x80, CHR 0xA8],
      [CHR 0xE2, CHR 0x80, CHR 0xA9], [CHR 0xE2, CHR 0x80, CHR 0xAF],
      [CHR 0xE2, CHR 0x81, CHR 0x9F], [CHR 0xE3, CHR 0x80, CHR 0x80]]"

text \<open>
  The number of bytes of the white-space character a string begins with, and of the
  one it ends with; \<open>0\<close> when there is none.
\<close>

definition leading_space :: "string \<Rightarrow> nat" where
  "leading_space s =
     (case s of
        [] \<Rightarrow> 0
      | c # _ \<Rightarrow>
          if is_space c then 1
          else (case List.find (\<lambda>code. take (length code) s = code) space_codes of
                  None \<Rightarrow> 0
                | Some code \<Rightarrow> length code))"

definition trailing_space :: "string \<Rightarrow> nat" where
  "trailing_space s =
     (if s = [] then 0
      else if is_space (last s) then 1
      else (case List.find (\<lambda>code. length code \<le> length s
                                     \<and> drop (length s - length code) s = code) space_codes of
              None \<Rightarrow> 0
            | Some code \<Rightarrow> length code))"

function lstrip :: "string \<Rightarrow> string" where
  "lstrip s = (if leading_space s = 0 then s else lstrip (drop (leading_space s) s))"
  by pat_completeness auto
termination
  by (relation "measure length") (auto simp: leading_space_def split: list.splits)

function rstrip :: "string \<Rightarrow> string" where
  "rstrip s = (if trailing_space s = 0 then s else rstrip (take (length s - trailing_space s) s))"
  by pat_completeness auto
termination
  by (relation "measure length") (auto simp: trailing_space_def split: if_splits)

declare lstrip.simps [simp del] rstrip.simps [simp del]

definition strip :: "string \<Rightarrow> string" where
  "strip s = rstrip (lstrip s)"

definition startswith :: "string \<Rightarrow> string \<Rightarrow> bool" where
  "startswith s p = (take (length p) s = p)"

text \<open>
  \<open>s.replace(old, new)\<close> for a non-empty \<open>old\<close>: the occurrences are replaced from
  the left and do not overlap. (The source calls it with \<open>'_r'\<close> and \<open>'_'\<close> only.)
\<close>

function replace :: "string \<Rightarrow> string \<Rightarrow> string \<Rightarrow> string" where
  "replace old new [] = []"
| "replace old new (c # cs) =
     (if old \<noteq> [] \<and> startswith (c # cs) old
      then new @ replace old new (drop (length old - 1) cs)
      else c # replace old new cs)"
  by pat_completeness auto
termination
  by (relation "measure (\<lambda>(old, new, s). length s)") auto

text \<open>\<open>str(n)\<close> of an integer, as the f-string \<open>f'col_{i}'\<close> formats it.\<close>

function str_nat :: "nat \<Rightarrow> string" where
  "str_nat n =
     (if n < 10 then [char_of (48 + n)] else str_nat (n div 10) @ [char_of (48 + n mod 10)])"
  by pat_completeness auto
termination
  by (relation "measure (\<lambda>n. n)") auto

declare str_nat.simps [simp del]

definition str_int :: "int \<Rightarrow> string" where
  "str_int i = (if i < 0 then CHR ''-'' # str_nat (nat (- i)) else str_nat (nat i))"

text \<open>
  \<open>int(s)\<close> of a string, in base ten: white space around the literal is dropped, a
  sign may lead, and single underscores may stand between the digits \<open>0\<close> to \<open>9\<close>.
  \<open>None\<close> is Python's \<open>ValueError\<close>. (Decimal digits outside ASCII, and the limit that
  newer interpreters put on the number of digits, are not modelled.) The flag of \<open>int_digits\<close> says that the character before was a
  digit, which is when an underscore or the end may follow.
\<close>

definition is_digit :: "char \<Rightarrow> bool" where
  "is_digit c = (ord (CHR ''0'') \<le> ord c \<and> ord c \<le> ord (CHR ''9''))"

fun int_digits :: "bool \<Rightarrow> int \<Rightarrow> string \<Rightarrow> int option" where
  "int_digits after_digit acc [] = (if after_digit then Some acc else None)"
| "int_digits after_digit acc (c # cs) =
     (if is_digit c then int_digits True (acc * 10 + (ord c - ord (CHR ''0''))) cs
      else if c = CHR ''_'' \<and> after_digit then int_digits False acc cs
      else None)"

definition py_int :: "string \<Rightarrow> int option" where
  "py_int s =
     (case strip s of
        [] \<Rightarrow> None
      | c # cs \<Rightarrow>
          if c = CHR ''-'' then map_option uminus (int_digits False 0 cs)
          else if c = CHR ''+'' then int_digits False 0 cs
          else int_digits False 0 (c # cs))"

section \<open>Errors, lists and dictionaries\<close>

text \<open>The exceptions the converter can raise; their messages are not modelled.\<close>

datatype error = FileNotFoundError | BadZipFile | KeyError | ValueError | TypeError | IndexError

text \<open>
  The subscript \<open>xs[i]\<close> of a list of length \<open>n\<close>: the indices from \<open>0\<close> to
  \<open>n - 1\<close> read from the front, those from \<open>-n\<close> to \<open>-1\<close> from the end (\<open>-1\<close>
  is the last element), and every other index raises \<open>IndexError\<close>.
\<close>

definition py_index :: "'a list \<Rightarrow> int \<Rightarrow> error + 'a" where
  "py_index xs i =
     (if 0 \<le> i \<and> i < int (length xs) then Inr (xs ! nat i)
      else if i < 0 \<and> - int (length xs) \<le> i then Inr (xs ! nat (int (length xs) + i))
      else Inl IndexError)"

text \<open>\<open>xs.index(x) if x in xs else None\<close>.\<close>

fun list_index :: "'a list \<Rightarrow> 'a \<Rightarrow> int option" where
  "list_index [] x = None"
| "list_index (y # ys) x = (if y = x then Some 0 else map_option (\<lambda>i. i + 1) (list_index ys x))"

text \<open>
  A Python \<open>dict\<close> keeps its keys in insertion order, and assigning to a key that is
  there keeps its place: an association list updated by \<^const>\<open>AList.update\<close>.
\<close>

type_synonym ('k, 'v) dict = "('k \<times> 'v) list"

definition dict_get :: "('k, 'v) dict \<Rightarrow> 'k \<Rightarrow> 'v \<Rightarrow> 'v" where
  "dict_get d k dflt = (case map_of d k of None \<Rightarrow> dflt | Some v \<Rightarrow> v)"

section \<open>Column references\<close>

text \<open>
  \<^verbatim>\<open>
  def get_column_index(col_ref):
      index = 0
      for char in col_ref.upper():
          index = index * 26 + (ord(char) - ord('A') + 1)
      return index - 1
  \<close>
\<close>

definition get_column_index :: "string \<Rightarrow> int" where
  "get_column_index col_ref =
     foldl (\<lambda>index char. index * 26 + (ord char - ord (CHR ''A'') + 1)) 0 (upper col_ref) - 1"

subsection \<open>The bijective base-26 numerals of the specification\<close>

text \<open>
  The specification's reading of column letters, written from its words and not from
  the code: the digits are \<open>A = 1\<close> up to \<open>Z = 26\<close>, there is no zero digit, and a
  digit that has \<open>k\<close> digits to its right weighs \<open>26 ^ k\<close>.
\<close>

definition spec_digit :: "char \<Rightarrow> nat" where
  "spec_digit c = of_char c - 64"

fun spec_bijective_value :: "string \<Rightarrow> nat" where
  "spec_bijective_value [] = 0"
| "spec_bijective_value (c # cs) = spec_digit c * 26 ^ length cs + spec_bijective_value cs"

text \<open>The inverse: the numeral of a positive number, least significant digit last.\<close>

function spec_bijective_numeral :: "nat \<Rightarrow> string" where
  "spec_bijective_numeral n =
     (if n = 0 then []
      else spec_bijective_numeral ((n - 1) div 26) @ [char_of (65 + (n - 1) mod 26)])"
  by pat_completeness auto
termination
  by (relation "measure (\<lambda>n. n)") auto

declare spec_bijective_numeral.simps [simp del]

definition spec_index_to_letters :: "int \<Rightarrow> string" where
  "spec_index_to_letters i = spec_bijective_numeral (nat (i + 1))"


section \<open>The workbook\<close>

text \<open>
  The archive after XML parsing, as far as the converter looks at it. A cell \<open>c\<close>
  element has its attributes \<open>r\<close> and \<open>t\<close> (absent: \<open>None\<close>) and the text of its
  first \<open>v\<close> element (\<open>None\<close>: no such element; the empty string: one without text).
  A \<open>row\<close> element has its attribute \<open>r\<close> and its \<open>c\<close> elements in document order.
\<close>

record cell =
  cell_r :: "string option"
  cell_t :: "string option"
  cell_v :: "string option"

record row_elem =
  row_r :: "string option"
  row_cells :: "cell list"

text \<open>
  The parts of the archive: \<open>xl/sharedStrings.xml\<close> as the texts of the \<open>t\<close>
  elements of each \<open>si\<close> element, \<open>xl/workbook.xml\<close> as the name and relationship id
  of each \<open>sheet\<close> element, \<open>xl/_rels/workbook.xml.rels\<close> as the \<open>Id\<close> and \<open>Target\<close>
  of each \<open>Relationship\<close> element (\<open>None\<close>: the part is not in the archive), and the
  sheet parts by member name, each as its \<open>row\<close> elements (members that are no
  sheet parts are left out). The XML is taken to be well formed and these attributes
  to be present.
\<close>

record archive =
  shared_strings_xml :: "string list list option"
  workbook_xml :: "(string \<times> string) list option"
  workbook_rels :: "(string \<times> string) list option"
  members :: "(string \<times> row_elem list) list"

text \<open>
  \<^verbatim>\<open>
  shared_strings = []
  try:
      sst_xml = zip_ref.read('xl/sharedStrings.xml')
      for si in sst_root.findall('.//main:si', self.ns):
          text_parts = []
          for t in si.findall('.//main:t', self.ns):
              if t.text:
                  text_parts.append(t.text)
          shared_strings.append(''.join(text_parts))
  except KeyError:
      pass
  \<close>
\<close>

definition load_shared_strings :: "archive \<Rightarrow> string list" where
  "load_shared_strings zip_ref =
     (case shared_strings_xml zip_ref of
        None \<Rightarrow> []
      | Some sis \<Rightarrow> map (\<lambda>si. concat (filter (\<lambda>t. t \<noteq> []) si)) sis)"

text \<open>
  \<open>find_sheet_path\<close>: the sheets are collected into a dictionary from name to
  relationship id; a sheet name that is \<open>None\<close> or empty selects the first one.
\<close>

fun find_rel :: "(string \<times> string) list \<Rightarrow> string \<Rightarrow> string option" where
  "find_rel [] target_rid = None"
| "find_rel ((rid, target) # rels) target_rid =
     (if rid = target_rid then Some (''xl/'' @ target) else find_rel rels target_rid)"

definition select_sheet :: "(string, string) dict \<Rightarrow> string option \<Rightarrow> error + (string \<times> string)" where
  "select_sheet sheets sheet_name =
     (case sheets of
        [] \<Rightarrow> Inl ValueError
      | first_sheet # _ \<Rightarrow>
          (let wanted = (case sheet_name of None \<Rightarrow> [] | Some n \<Rightarrow> n)
           in if wanted \<noteq> []
              then (case map_of sheets wanted of
                      None \<Rightarrow> Inl ValueError
                    | Some rid \<Rightarrow> Inr (wanted, rid))
              else Inr first_sheet))"

definition find_sheet_path :: "archive \<Rightarrow> string option \<Rightarrow> error + (string \<times> string)" where
  "find_sheet_path zip_ref sheet_name =
     (case workbook_xml zip_ref of
        None \<Rightarrow> Inl KeyError
      | Some sheet_elems \<Rightarrow>
          (case select_sheet (foldl (\<lambda>d sheet. AList.update (fst sheet) (snd sheet) d) [] sheet_elems)
                  sheet_name of
             Inl e \<Rightarrow> Inl e
           | Inr target \<Rightarrow>
               (case workbook_rels zip_ref of
                  None \<Rightarrow> Inl KeyError
                | Some rels \<Rightarrow>
                    (case find_rel rels (snd target) of
                       None \<Rightarrow> Inl ValueError
                     | Some sheet_path \<Rightarrow> Inr (sheet_path, fst target)))))"

section \<open>Parsing a row\<close>

text \<open>
  \<^verbatim>\<open>
  for cell in row_elem.findall('.//main:c', self.ns):
      cell_ref = cell.get('r')
      col_letter = ''.join([c for c in cell_ref if c.isalpha()])
      col_idx = self.get_column_index(col_letter)
      if col_idx > max_col:
          continue
      v = cell.find('.//main:v', self.ns)
      if v is not None and v.text:
          t = cell.get('t')
          if t == 's':
              idx = int(v.text)
              if idx < len(shared_strings):
                  cells_dict[col_idx] = shared_strings[idx]
          else:
              cells_dict[col_idx] = v.text
  \<close>
  One pass of the loop body is \<open>parse_cell\<close>; iterating over a missing \<open>r\<close>
  attribute is a \<open>TypeError\<close>.
\<close>

definition parse_cell ::
  "cell \<Rightarrow> string list \<Rightarrow> int \<Rightarrow> (int, string) dict \<Rightarrow> error + (int, string) dict" where
  "parse_cell c shared_strings max_col cells_dict =
     (case cell_r c of
        None \<Rightarrow> Inl TypeError
      | Some cell_ref \<Rightarrow>
          let col_letter = filter isalpha cell_ref;
              col_idx = get_column_index col_letter
          in if col_idx > max_col then Inr cells_dict
             else (case cell_v c of
                     None \<Rightarrow> Inr cells_dict
                   | Some v_text \<Rightarrow>
                       if v_text = [] then Inr cells_dict
                       else if cell_t c = Some ''s'' then
                         (case py_int v_text of
                            None \<Rightarrow> Inl ValueError
                          | Some idx \<Rightarrow>
                              if idx < int (length shared_strings) then
                                (case py_index shared_strings idx of
                                   Inl e \<Rightarrow> Inl e
                                 | Inr s \<Rightarrow> Inr (AList.update col_idx s cells_dict))
                              else Inr cells_dict)
                       else Inr (AList.update col_idx v_text cells_dict)))"

fun parse_cells ::
  "cell list \<Rightarrow> string list \<Rightarrow> int \<Rightarrow> (int, string) dict \<Rightarrow> error + (int, string) dict" where
  "parse_cells [] shared_strings max_col cells_dict = Inr cells_dict"
| "parse_cells (c # cs) shared_strings max_col cells_dict =
     (case parse_cell c shared_strings max_col cells_dict of
        Inl e \<Rightarrow> Inl e
      | Inr cells_dict' \<Rightarrow> parse_cells cs shared_strings max_col cells_dict')"

definition parse_row :: "row_elem \<Rightarrow> string list \<Rightarrow> int \<Rightarrow> error + (int, string) dict" where
  "parse_row row_elem shared_strings max_col =
     parse_cells (row_cells row_elem) shared_strings max_col []"

section \<open>The conversion\<close>

subsection \<open>Headers\<close>

text \<open>
  \<^verbatim>\<open>
  max_col = max(header_cells.keys()) if header_cells else 0
  headers = []
  for i in range(max_col + 1):
      header = header_cells.get(i, '').strip()
      headers.append(header if header else f'col_{i}')
  \<close>
\<close>

definition max_col_of :: "(int, string) dict \<Rightarrow> int" where
  "max_col_of header_cells =
     (case map fst header_cells of [] \<Rightarrow> 0 | k # ks \<Rightarrow> fold max ks k)"

definition header_at :: "(int, string) dict \<Rightarrow> int \<Rightarrow> string" where
  "header_at header_cells i =
     (let header = strip (dict_get header_cells i [])
      in if header \<noteq> [] then header else ''col_'' @ str_int i)"

definition build_headers :: "(int, string) dict \<Rightarrow> string list" where
  "build_headers header_cells = map (header_at header_cells) [0..max_col_of header_cells]"

subsection \<open>Rows\<close>

text \<open>
  The result: language tag to text key to text, both dictionaries.
  \<^verbatim>\<open>
  if lang not in result:
      result[lang] = {}
  result[lang][text_id] = value
  \<close>
\<close>

type_synonym result = "(string, (string, string) dict) dict"

definition set_text :: "string \<Rightarrow> string \<Rightarrow> string \<Rightarrow> result \<Rightarrow> result" where
  "set_text lang text_id text_value result =
     AList.update lang (AList.update text_id text_value (dict_get result lang [])) result"

text \<open>
  The body of the row loop once the row is parsed, with the source's local names.
  \<^verbatim>\<open>
  key_value = cells_dict.get(key_idx, '').strip() if key_idx is not None else ''
  default_value = cells_dict.get(default_idx, '').strip()
  if not default_value:
      continue
  text_id = key_value if key_value else default_value
  if default_lang not in result:
      result[default_lang] = {}
  result[default_lang][text_id] = default_value
  for col_idx, lang_code in language_columns.items():
      text_value = cells_dict.get(col_idx, '').strip()
      if text_value:
          if lang_code not in result:
              result[lang_code] = {}
          result[lang_code][text_id] = text_value
  \<close>
\<close>

definition key_value_of :: "int option \<Rightarrow> (int, string) dict \<Rightarrow> string" where
  "key_value_of key_idx cells_dict =
     (case key_idx of None \<Rightarrow> [] | Some k \<Rightarrow> strip (dict_get cells_dict k []))"

definition default_value_of :: "int \<Rightarrow> (int, string) dict \<Rightarrow> string" where
  "default_value_of default_idx cells_dict = strip (dict_get cells_dict default_idx [])"

definition text_id_of :: "int option \<Rightarrow> int \<Rightarrow> (int, string) dict \<Rightarrow> string" where
  "text_id_of key_idx default_idx cells_dict =
     (let key_value = key_value_of key_idx cells_dict;
          default_value = default_value_of default_idx cells_dict
      in if key_value \<noteq> [] then key_value else default_value)"

definition add_language ::
  "(int, string) dict \<Rightarrow> string \<Rightarrow> result \<Rightarrow> int \<times> string \<Rightarrow> result" where
  "add_language cells_dict text_id result column =
     (let text_value = strip (dict_get cells_dict (fst column) [])
      in if text_value \<noteq> [] then set_text (snd column) text_id text_value result else result)"

definition add_row ::
  "int option \<Rightarrow> int \<Rightarrow> string \<Rightarrow> (int, string) dict \<Rightarrow> (int, string) dict \<Rightarrow> result \<Rightarrow> result" where
  "add_row key_idx default_idx default_lang language_columns cells_dict result =
     (let default_value = default_value_of default_idx cells_dict
      in if default_value = [] then result
         else
           (let text_id = text_id_of key_idx default_idx cells_dict
            in foldl (add_language cells_dict text_id)
                 (set_text default_lang text_id default_value result) language_columns))"

text \<open>
  The values that stay fixed during the row loop.
\<close>

record extraction =
  ex_shared_strings :: "string list"
  ex_max_col :: int
  ex_key_idx :: "int option"
  ex_default_idx :: int
  ex_default_lang :: string
  ex_language_columns :: "(int, string) dict"
  ex_start_row :: int
  ex_actual_end_row :: int

text \<open>
  \<^verbatim>\<open>
  for row_elem in rows:
      row_num = int(row_elem.get('r'))
      if start_row <= row_num <= actual_end_row:
          cells_dict = self.parse_row(row_elem, shared_strings, max_col)
          ...
  \<close>
  \<open>int(None)\<close> is a \<open>TypeError\<close>, \<open>int\<close> of a string that is no integer a
  \<open>ValueError\<close>.
\<close>

definition extract_row :: "extraction \<Rightarrow> row_elem \<Rightarrow> result \<Rightarrow> error + result" where
  "extract_row ex row_elem result =
     (case row_r row_elem of
        None \<Rightarrow> Inl TypeError
      | Some r \<Rightarrow>
          (case py_int r of
             None \<Rightarrow> Inl ValueError
           | Some row_num \<Rightarrow>
               if ex_start_row ex \<le> row_num \<and> row_num \<le> ex_actual_end_row ex then
                 (case parse_row row_elem (ex_shared_strings ex) (ex_max_col ex) of
                    Inl e \<Rightarrow> Inl e
                  | Inr cells_dict \<Rightarrow>
                      Inr (add_row (ex_key_idx ex) (ex_default_idx ex) (ex_default_lang ex)
                             (ex_language_columns ex) cells_dict result))
               else Inr result))"

fun extract_rows :: "extraction \<Rightarrow> row_elem list \<Rightarrow> result \<Rightarrow> error + result" where
  "extract_rows ex [] result = Inr result"
| "extract_rows ex (row_elem # rows) result =
     (case extract_row ex row_elem result of
        Inl e \<Rightarrow> Inl e
      | Inr result' \<Rightarrow> extract_rows ex rows result')"

text \<open>
  \<open>actual_end_row = end_row if end_row else len(rows)\<close>: an \<open>end_row\<close> of \<open>None\<close>
  or of \<open>0\<close> is false.
\<close>

definition actual_end_row_of :: "int option \<Rightarrow> row_elem list \<Rightarrow> int" where
  "actual_end_row_of end_row rows =
     (case end_row of
        None \<Rightarrow> int (length rows)
      | Some e \<Rightarrow> if e \<noteq> 0 then e else int (length rows))"

subsection \<open>Options\<close>

record options =
  input_path :: string
  output_path :: string
  sheet_name :: "string option"
  start_row :: int
  end_row :: "int option"
  key_column :: string
  default_column :: string
  default_lang :: string
  exclude_columns :: "string set option"
  use_abbrev :: bool

text \<open>
  The default of \<open>exclude_columns\<close>; its first name is four Chinese characters,
  written as their UTF-8 bytes.
\<close>

definition default_exclude_columns :: "string set" where
  "default_exclude_columns =
     {[CHR 0xE7, CHR 0x89, CHR 0xB9, CHR 0xE6, CHR 0xAE, CHR 0x8A,
       CHR 0xE8, CHR 0xAF, CHR 0xB4, CHR 0xE6, CHR 0x98, CHR 0x8E],
      ''is_android'', ''location''}"

subsection \<open>Language columns\<close>

text \<open>
  \<^verbatim>\<open>
  meta_columns = {key_column, default_column} | exclude_columns
  language_columns = {}
  for idx, header in enumerate(headers):
      if header and header not in meta_columns and not header.startswith('col_'):
          lang_code = header
          if use_abbrev:
              lang_code = header.replace('_r', '-').replace('_', '-')
          language_columns[idx] = lang_code
  \<close>
\<close>

definition meta_columns :: "options \<Rightarrow> string set" where
  "meta_columns opts =
     {key_column opts, default_column opts} \<union>
     (case exclude_columns opts of None \<Rightarrow> default_exclude_columns | Some ex \<Rightarrow> ex)"

definition is_language_header :: "options \<Rightarrow> string \<Rightarrow> bool" where
  "is_language_header opts header =
     (header \<noteq> [] \<and> header \<notin> meta_columns opts \<and> \<not> startswith header ''col_'')"

definition lang_code_of :: "bool \<Rightarrow> string \<Rightarrow> string" where
  "lang_code_of abbrev header =
     (if abbrev then replace ''_'' ''-'' (replace ''_r'' ''-'' header) else header)"

definition language_columns_of :: "options \<Rightarrow> string list \<Rightarrow> (int, string) dict" where
  "language_columns_of opts headers =
     map (\<lambda>(idx, header). (int idx, lang_code_of (use_abbrev opts) header))
       (filter (\<lambda>(idx, header). is_language_header opts header) (List.enumerate 0 headers))"

subsection \<open>The whole extraction\<close>

text \<open>
  What the converter does with the open archive, up to the result it is about to
  write: shared strings, sheet, header row, columns, rows.
\<close>

definition extract_sheet :: "options \<Rightarrow> string list \<Rightarrow> row_elem list \<Rightarrow> error + result" where
  "extract_sheet opts shared_strings rows =
     (case rows of
        [] \<Rightarrow> Inl ValueError
      | first_row_elem # _ \<Rightarrow>
          (case parse_row first_row_elem shared_strings 100 of
             Inl e \<Rightarrow> Inl e
           | Inr header_cells \<Rightarrow>
               (let headers = build_headers header_cells
                in case list_index headers (default_column opts) of
                     None \<Rightarrow> Inl ValueError
                   | Some default_idx \<Rightarrow>
                       extract_rows
                         \<lparr>ex_shared_strings = shared_strings,
                          ex_max_col = max_col_of header_cells,
                          ex_key_idx = list_index headers (key_column opts),
                          ex_default_idx = default_idx,
                          ex_default_lang = default_lang opts,
                          ex_language_columns = language_columns_of opts headers,
                          ex_start_row = start_row opts,
                          ex_actual_end_row = actual_end_row_of (end_row opts) rows\<rparr>
                         rows [])))"

definition extract_archive :: "options \<Rightarrow> archive \<Rightarrow> error + result" where
  "extract_archive opts zip_ref =
     (case find_sheet_path zip_ref (sheet_name opts) of
        Inl e \<Rightarrow> Inl e
      | Inr found \<Rightarrow>
          (case map_of (members zip_ref) (fst found) of
             None \<Rightarrow> Inl KeyError
           | Some rows \<Rightarrow> extract_sheet opts (load_shared_strings zip_ref) rows))"

section \<open>Writing the result\<close>

text \<open>
  \<open>json.dump(result, f, ensure_ascii=False, indent=2)\<close> for a dictionary of
  dictionaries of strings. Inside a string the quote, the backslash and the control
  characters below \<open>0x20\<close> are escaped; every other character is written as it is.
  An object opens a line per item, indented by two blanks per level, the items
  separated by a comma and the key from the value by a colon and a blank; the empty
  object is \<open>{}\<close>.
\<close>

definition hex_digit :: "nat \<Rightarrow> char" where
  "hex_digit n = (if n < 10 then char_of (48 + n) else char_of (87 + n))"

definition json_escape :: "char \<Rightarrow> string" where
  "json_escape c =
     (if c = CHR 0x22 then [CHR 0x5C, CHR 0x22]
      else if c = CHR 0x5C then [CHR 0x5C, CHR 0x5C]
      else if c = CHR 0x0A then [CHR 0x5C, CHR ''n'']
      else if c = CHR 0x0D then [CHR 0x5C, CHR ''r'']
      else if c = CHR 0x09 then [CHR 0x5C, CHR ''t'']
      else if c = CHR 0x08 then [CHR 0x5C, CHR ''b'']
      else if c = CHR 0x0C then [CHR 0x5C, CHR ''f'']
      else if (of_char c :: nat) < 32
        then [CHR 0x5C, CHR ''u'', CHR ''0'', CHR ''0'',
              hex_digit (of_char c div 16), hex_digit (of_char c mod 16)]
      else [c])"

definition json_string :: "string \<Rightarrow> string" where
  "json_string s = CHR 0x22 # concat (map json_escape s) @ [CHR 0x22]"

definition newline_indent :: "nat \<Rightarrow> string" where
  "newline_indent level = CHR 0x0A # replicate (2 * level) CHR '' ''"

fun join :: "string \<Rightarrow> string list \<Rightarrow> string" where
  "join sep [] = []"
| "join sep [x] = x"
| "join sep (x # y # ys) = x @ sep @ join sep (y # ys)"

definition json_object :: "nat \<Rightarrow> (string \<times> string) list \<Rightarrow> string" where
  "json_object level items =
     (if items = [] then ''{}''
      else ''{'' @ newline_indent (level + 1)
           @ join (CHR '','' # newline_indent (level + 1))
               (map (\<lambda>item. json_string (fst item) @ '': '' @ snd item) items)
           @ newline_indent level @ ''}'')"

definition json_dump :: "result \<Rightarrow> string" where
  "json_dump result =
     json_object 0
       (map (\<lambda>lang. (fst lang,
                     json_object 1 (map (\<lambda>entry. (fst entry, json_string (snd entry))) (snd lang))))
          result)"

section \<open>The converter on a file system\<close>

text \<open>
  A file is a ZIP archive, given by its parts, or any other bytes; a file system maps
  a path to the file there.
  \<^verbatim>\<open>
  if not os.path.exists(input_path):
      raise FileNotFoundError(...)
  with zipfile.ZipFile(input_path, 'r') as zip_ref:
      ...                                   # extract_archive
      with open(output_path, 'w', encoding='utf-8') as f:
          json.dump(result, f, ensure_ascii=False, indent=2)
  \<close>
  The converter returns the exception it raised, if any, and the file system it
  leaves behind. Opening the output file is taken to succeed.
\<close>

datatype file_content = Zip archive | Other string

type_synonym filesystem = "string \<Rightarrow> file_content option"

definition convert_to_i18n_json :: "options \<Rightarrow> filesystem \<Rightarrow> error option \<times> filesystem" where
  "convert_to_i18n_json opts fs =
     (case fs (input_path opts) of
        None \<Rightarrow> (Some FileNotFoundError, fs)
      | Some (Other bytes) \<Rightarrow> (Some BadZipFile, fs)
      | Some (Zip zip_ref) \<Rightarrow>
          (case extract_archive opts zip_ref of
             Inl e \<Rightarrow> (Some e, fs)
           | Inr result \<Rightarrow> (None, fs(output_path opts \<mapsto> Other (json_dump result)))))"

section \<open>Reading the result\<close>

text \<open>
  \<open>result[lang].keys()\<close> and \<open>result[lang].values()\<close> as sets, empty when the
  language is not in the result.
\<close>

definition lang_keys :: "result \<Rightarrow> string \<Rightarrow> string set" where
  "lang_keys result lang = fst ` set (dict_get result lang [])"

definition lang_values :: "result \<Rightarrow> string \<Rightarrow> string set" where
  "lang_values result lang = snd ` set (dict_get result lang [])"

text \<open>Every key of every language is a key of the language \<open>dl\<close>.\<close>

definition keys_covered :: "string \<Rightarrow> result \<Rightarrow> bool" where
  "keys_covered dl result = (\<forall>lang. lang_keys result lang \<subseteq> lang_keys result dl)"

definition values_nonempty :: "result \<Rightarrow> bool" where
  "values_nonempty result = (\<forall>lang. [] \<notin> lang_values result lang)"

text \<open>
  The normalisation of a language tag in the specification's words, in one pass from
  the left: an underscore followed by \<open>r\<close> becomes a hyphen, and so does every
  underscore that remains.
\<close>

fun spec_normalize_tag :: "string \<Rightarrow> string" where
  "spec_normalize_tag [] = []"
| "spec_normalize_tag [a] = [if a = CHR ''_'' then CHR ''-'' else a]"
| "spec_normalize_tag (a # b # cs) =
     (if a = CHR ''_'' \<and> b = CHR ''r'' then CHR ''-'' # spec_normalize_tag cs
      else (if a = CHR ''_'' then CHR ''-'' else a) # spec_normalize_tag (b # cs))"

section \<open>Example workbooks\<close>

text \<open>
  A cell with inline text, a cell that refers to the shared strings, and a workbook of
  one sheet \<open>Sheet1\<close> with the given shared strings and rows.
\<close>

definition text_cell :: "string \<Rightarrow> string \<Rightarrow> cell" where
  "text_cell ref txt = \<lparr>cell_r = Some ref, cell_t = None, cell_v = Some txt\<rparr>"

definition shared_cell :: "string \<Rightarrow> string \<Rightarrow> cell" where
  "shared_cell ref txt = \<lparr>cell_r = Some ref, cell_t = Some ''s'', cell_v = Some txt\<rparr>"

definition one_sheet :: "string list \<Rightarrow> row_elem list \<Rightarrow> archive" where
  "one_sheet strings rows =
     \<lparr>shared_strings_xml = Some (map (\<lambda>s. [s]) strings),
      workbook_xml = Some [(''Sheet1'', ''rId1'')],
      workbook_rels = Some [(''rId1'', ''worksheets/sheet1.xml'')],
      members = [(''xl/worksheets/sheet1.xml'', rows)]\<rparr>"

text \<open>The options with the defaults of the source.\<close>

definition default_options :: "string \<Rightarrow> string \<Rightarrow> options" where
  "default_options inp out =
     \<lparr>input_path = inp, output_path = out, sheet_name = None, start_row = 2,
      end_row = None, key_column = ''key'', default_column = ''default'',
      default_lang = ''en'', exclude_columns = None, use_abbrev = True\<rparr>"

text \<open>The no-break space \<open>U+00A0\<close> and the ideographic space \<open>U+3000\<close>, in UTF-8.\<close>

definition nbsp :: string where
  "nbsp = [CHR 0xC2, CHR 0xA0]"

definition ideographic_space :: string where
  "ideographic_space = [CHR 0xE3, CHR 0x80, CHR 0x80]"

text \<open>
  A sheet with the headers \<open>key\<close>, \<open>default\<close> (followed by an ideographic space),
  \<open>zh_rCN\<close> and \<open>col_fr\<close>. Row 2 has a no-break space as its key and white space
  around its default text; row 3 has a key and only a blank and an ideographic space
  in the \<open>zh_rCN\<close> column; row 4 has only an ideographic space as its default text.
\<close>

definition example_rows :: "row_elem list" where
  "example_rows =
     [\<lparr>row_r = Some ''1'', row_cells =
         [text_cell ''A1'' ''key'', text_cell ''B1'' (''default'' @ ideographic_space),
          text_cell ''C1'' ''zh_rCN'', text_cell ''D1'' ''col_fr'']\<rparr>,
      \<lparr>row_r = Some ''2'', row_cells =
         [text_cell ''A2'' nbsp, text_cell ''B2'' ('' Hello'' @ nbsp),
          shared_cell ''C2'' ''2'', text_cell ''D2'' ''Bonjour'']\<rparr>,
      \<lparr>row_r = Some ''3'', row_cells =
         [text_cell ''A3'' ''bye'', text_cell ''B3'' ''Goodbye'',
          text_cell ''C3'' (CHR '' '' # ideographic_space)]\<rparr>,
      \<lparr>row_r = Some ''4'', row_cells =
         [text_cell ''A4'' ''skipped'', text_cell ''B4'' ideographic_space,
          text_cell ''C4'' ''x'']\<rparr>]"

definition example_strings :: "string list" where
  "example_strings = [''zero'', ''one'', ''two'', ''three'', ''four'']"

definition example_archive :: archive where
  "example_archive = one_sheet example_strings example_rows"

definition example_result :: result where
  "example_result =
     [(''en'', [(''Hello'', ''Hello''), (''bye'', ''Goodbye'')]),
      (''zh-CN'', [(''Hello'', ''two'')])]"

text \<open>A file system that holds one file, a workbook.\<close>

definition single_file :: "string \<Rightarrow> archive \<Rightarrow> filesystem" where
  "single_file path zip_ref = Map.empty(path \<mapsto> Zip zip_ref)"

text \<open>A sheet whose row elements are numbered 1 and 3: row 2 is blank and left out.\<close>

definition sparse_rows :: "row_elem list" where
  "sparse_rows =
     [\<lparr>row_r = Some ''1'', row_cells =
         [text_cell ''A1'' ''key'', text_cell ''B1'' ''default'']\<rparr>,
      \<lparr>row_r = Some ''3'', row_cells =
         [text_cell ''A3'' ''bye'', text_cell ''B3'' ''Goodbye'']\<rparr>]"

text \<open>A sheet whose header row has no column \<open>default\<close>.\<close>

definition no_default_rows :: "row_elem list" where
  "no_default_rows =
     [\<lparr>row_r = Some ''1'', row_cells =
         [text_cell ''A1'' ''key'', text_cell ''B1'' ''en'']\<rparr>,
      \<lparr>row_r = Some ''2'', row_cells =
         [text_cell ''A2'' ''bye'', text_cell ''B2'' ''Goodbye'']\<rparr>]"

section \<open>Column letters are bijective base-26 numerals\<close>

lemma upper_of_upper: "list_all is_upper s \<Longrightarrow> upper s = s"
  by (induction s) (auto simp: upper_def upper_char_def is_upper_def is_lower_def ord_def)

lemma ord_of_nat: "ord c = int (of_char c)"
  by (simp add: ord_def of_nat_of_char)

lemma spec_digit_range: "is_upper c \<Longrightarrow> 1 \<le> spec_digit c \<and> spec_digit c \<le> 26"
  by (auto simp: is_upper_def ord_of_nat spec_digit_def)

lemma spec_digit_ord: "is_upper c \<Longrightarrow> ord c - ord (CHR ''A'') + 1 = int (spec_digit c)"
  by (auto simp: is_upper_def ord_of_nat spec_digit_def)

lemma char_of_spec_digit: "is_upper c \<Longrightarrow> char_of (64 + spec_digit c) = c"
  by (auto simp: is_upper_def ord_of_nat spec_digit_def)

text \<open>The loop of \<open>get_column_index\<close>, started from any value of \<open>index\<close>.\<close>

lemma column_loop:
  "list_all is_upper s \<Longrightarrow>
   foldl (\<lambda>index char. index * 26 + (ord char - ord (CHR ''A'') + 1)) acc s
     = acc * 26 ^ length s + int (spec_bijective_value s)"
proof (induction s arbitrary: acc)
  case Nil
  then show ?case by simp
next
  case (Cons c cs)
  have "foldl (\<lambda>index char. index * 26 + (ord char - ord (CHR ''A'') + 1)) acc (c # cs)
      = (acc * 26 + int (spec_digit c)) * 26 ^ length cs + int (spec_bijective_value cs)"
    using Cons by (simp add: spec_digit_ord)
  then show ?case by (simp add: algebra_simps)
qed

lemma spec_bijective_value_snoc:
  "spec_bijective_value (s @ [c]) = 26 * spec_bijective_value s + spec_digit c"
  by (induction s) (auto simp: algebra_simps)

lemma spec_bijective_numeral_step:
  assumes "1 \<le> d" and "d \<le> 26"
  shows "spec_bijective_numeral (26 * v + d) = spec_bijective_numeral v @ [char_of (64 + d)]"
proof -
  obtain e where e: "d = Suc e" "e < 26"
    using assms by (cases d) auto
  have quot: "(26 * v + d - 1) div 26 = v"
    using e by simp
  have rest: "(26 * v + d - 1) mod 26 = e"
    using e by simp
  show ?thesis
    using e by (subst spec_bijective_numeral.simps) (simp add: quot rest)
qed

lemma spec_numeral_of_value:
  "list_all is_upper s \<Longrightarrow> spec_bijective_numeral (spec_bijective_value s) = s"
proof (induction s rule: rev_induct)
  case Nil
  then show ?case by (simp add: spec_bijective_numeral.simps)
next
  case (snoc c s)
  then show ?case
    using spec_digit_range [of c]
    by (simp add: spec_bijective_value_snoc spec_bijective_numeral_step char_of_spec_digit)
qed

text \<open>
  Claim C1. For a non-empty string of the column letters \<open>A\<close> to \<open>Z\<close>,
  \<open>get_column_index\<close> is the value of the string as a bijective base-26 numeral
  (\<open>A = 1\<close>, ..., \<open>Z = 26\<close>, no zero digit) minus one, and the inverse mapping, from an
  index back to letters, recovers the string. In particular \<open>A\<close> has index 0, \<open>Z\<close> 25,
  \<open>AA\<close> 26 and \<open>AB\<close> 27.
\<close>

theorem get_column_index_bijective:
  assumes "col_ref \<noteq> []" and "list_all is_upper col_ref"
  shows "get_column_index col_ref = int (spec_bijective_value col_ref) - 1
       \<and> spec_index_to_letters (get_column_index col_ref) = col_ref
       \<and> get_column_index ''A'' = 0 \<and> get_column_index ''Z'' = 25
       \<and> get_column_index ''AA'' = 26 \<and> get_column_index ''AB'' = 27"
proof -
  have general: "get_column_index col_ref = int (spec_bijective_value col_ref) - 1"
    using assms by (simp add: get_column_index_def upper_of_upper column_loop)
  have recovered: "spec_index_to_letters (get_column_index col_ref) = col_ref"
    using assms by (simp add: general spec_index_to_letters_def spec_numeral_of_value)
  have examples: "get_column_index ''A'' = 0 \<and> get_column_index ''Z'' = 25
       \<and> get_column_index ''AA'' = 26 \<and> get_column_index ''AB'' = 27"
    by code_simp
  show ?thesis
    using general recovered examples by blast
qed

theorem get_column_index_bijective_witness:
  "''AB'' \<noteq> [] \<and> list_all is_upper ''AB''
   \<and> get_column_index ''AB'' = int (spec_bijective_value ''AB'') - 1
   \<and> spec_index_to_letters (get_column_index ''AB'') = ''AB''
   \<and> spec_bijective_value ''AB'' = 28"
proof -
  have nonempty: "''AB'' \<noteq> []"
    by simp
  have letters: "list_all is_upper ''AB''"
    by code_simp
  have val: "spec_bijective_value ''AB'' = 28"
    by code_simp
  show ?thesis
    using nonempty letters val get_column_index_bijective [OF nonempty letters] by blast
qed

text \<open>A reference in lower case has the index of its upper-case form.\<close>

lemma upper_char_idem: "upper_char (upper_char c) = upper_char c"
  by (simp add: upper_char_def is_lower_def ord_def)

lemma upper_idem: "upper (upper s) = upper s"
  by (induction s) (simp_all add: upper_def upper_char_idem)

lemma get_column_index_upper: "get_column_index (upper col_ref) = get_column_index col_ref"
  by (simp add: get_column_index_def upper_idem)

section \<open>Trimming\<close>

text \<open>
  White space outside ASCII is trimmed like the blank: a header followed by an
  ideographic space is the header, and a cell of such white space only is empty.
\<close>

lemma strip_examples:
  "strip (''default'' @ ideographic_space) = ''default''
   \<and> strip ('' Hello'' @ nbsp) = ''Hello''
   \<and> strip nbsp = []
   \<and> strip (CHR '' '' # ideographic_space) = []
   \<and> strip ''a b'' = ''a b''
   \<and> strip [] = []"
  by code_simp

lemma build_headers_examples:
  "build_headers [(0, ''key''), (1, ''default'' @ ideographic_space)] = [''key'', ''default'']
   \<and> build_headers [(0, ''key''), (1, ideographic_space), (2, ''default'')]
       = [''key'', ''col_1'', ''default'']"
  by code_simp

section \<open>Invariants of the result\<close>

lemma dict_get_update:
  "dict_get (AList.update k v d) k' dflt = (if k' = k then v else dict_get d k' dflt)"
  by (simp add: dict_get_def update_conv')

lemma dict_get_set_text:
  "dict_get (set_text lang text_id text_value result) lang' [] =
     (if lang' = lang then AList.update text_id text_value (dict_get result lang [])
      else dict_get result lang' [])"
  by (simp add: set_text_def dict_get_update)

lemma lang_keys_set_text:
  "lang_keys (set_text lang text_id text_value result) lang' =
     (if lang' = lang then insert text_id (lang_keys result lang) else lang_keys result lang')"
  by (simp add: lang_keys_def dict_get_set_text dom_update)

lemma values_update: "snd ` set (AList.update k v al) \<subseteq> insert v (snd ` set al)"
  by (induction al) auto

lemma lang_values_set_text:
  "lang_values (set_text lang text_id text_value result) lang' \<subseteq>
     (if lang' = lang then insert text_value (lang_values result lang) else lang_values result lang')"
  by (simp add: lang_values_def dict_get_set_text values_update)

lemma distinct_set_text:
  "distinct (map fst result) \<Longrightarrow> distinct (map fst (set_text lang text_id text_value result))"
  by (simp add: set_text_def distinct_update)

text \<open>What every pass of a loop keeps holds after the loop.\<close>

lemma foldl_invariant:
  assumes "P a" and "\<And>a x. P a \<Longrightarrow> x \<in> set xs \<Longrightarrow> P (f a x)"
  shows "P (foldl f a xs)"
  using assms by (induction xs arbitrary: a) auto

lemma extract_rows_invariant:
  assumes step: "\<And>cells_dict r. P r \<Longrightarrow>
       P (add_row (ex_key_idx ex) (ex_default_idx ex) (ex_default_lang ex)
            (ex_language_columns ex) cells_dict r)"
    and "P result" and "extract_rows ex rows result = Inr result'"
  shows "P result'"
  using assms(2,3)
proof (induction rows arbitrary: result)
  case Nil
  then show ?case by simp
next
  case (Cons row_elem rows)
  from Cons.prems(2) obtain r1 where r1: "extract_row ex row_elem result = Inr r1"
    and rest: "extract_rows ex rows r1 = Inr result'"
    by (auto split: sum.splits)
  have "P r1"
    using r1 Cons.prems(1) step
    by (auto simp: extract_row_def split: option.splits if_splits sum.splits)
  then show ?case using Cons.IH rest by blast
qed

text \<open>A successful extraction, taken apart into its steps.\<close>

lemma extract_sheet_Inr:
  assumes "extract_sheet opts shared_strings rows = Inr result"
  obtains first_row_elem rest header_cells default_idx where
    "rows = first_row_elem # rest"
    "parse_row first_row_elem shared_strings 100 = Inr header_cells"
    "list_index (build_headers header_cells) (default_column opts) = Some default_idx"
    "extract_rows
       \<lparr>ex_shared_strings = shared_strings,
        ex_max_col = max_col_of header_cells,
        ex_key_idx = list_index (build_headers header_cells) (key_column opts),
        ex_default_idx = default_idx,
        ex_default_lang = default_lang opts,
        ex_language_columns = language_columns_of opts (build_headers header_cells),
        ex_start_row = start_row opts,
        ex_actual_end_row = actual_end_row_of (end_row opts) rows\<rparr>
       rows [] = Inr result"
  using assms unfolding extract_sheet_def Let_def
  by (auto simp del: extract_rows.simps split: list.splits sum.splits option.splits)

lemma extract_archive_Inr:
  assumes "extract_archive opts zip_ref = Inr result"
  obtains sheet_path actual_sheet_name rows where
    "find_sheet_path zip_ref (sheet_name opts) = Inr (sheet_path, actual_sheet_name)"
    "map_of (members zip_ref) sheet_path = Some rows"
    "extract_sheet opts (load_shared_strings zip_ref) rows = Inr result"
  using assms unfolding extract_archive_def
  by (auto split: sum.splits option.splits)

lemma extract_archive_invariant:
  assumes step: "\<And>key_idx default_idx language_columns cells_dict r. P r \<Longrightarrow>
       P (add_row key_idx default_idx (default_lang opts) language_columns cells_dict r)"
    and "P []" and "extract_archive opts zip_ref = Inr result"
  shows "P result"
proof -
  from assms(3) obtain rows where
    sheet: "extract_sheet opts (load_shared_strings zip_ref) rows = Inr result"
    by (rule extract_archive_Inr)
  from sheet show ?thesis
  proof (rule extract_sheet_Inr)
    fix first_row_elem rest header_cells default_idx
    assume "extract_rows
       \<lparr>ex_shared_strings = load_shared_strings zip_ref,
        ex_max_col = max_col_of header_cells,
        ex_key_idx = list_index (build_headers header_cells) (key_column opts),
        ex_default_idx = default_idx,
        ex_default_lang = default_lang opts,
        ex_language_columns = language_columns_of opts (build_headers header_cells),
        ex_start_row = start_row opts,
        ex_actual_end_row = actual_end_row_of (end_row opts) rows\<rparr>
       rows [] = Inr result"
    then show "P result"
      by (rule extract_rows_invariant [rotated 2]) (simp_all add: step assms(2))
  qed
qed

lemma dict_get_member:
  "distinct (map fst d) \<Longrightarrow> (k, v) \<in> set d \<Longrightarrow> dict_get d k dflt = v"
  by (simp add: dict_get_def)

lemma dict_get_nonempty_member:
  "dict_get result lang [] \<noteq> [] \<Longrightarrow> (lang, dict_get result lang []) \<in> set result"
  by (auto simp: dict_get_def split: option.splits dest: map_of_SomeD)

lemma keys_covered_set_text_default:
  "keys_covered dl result \<Longrightarrow> keys_covered dl (set_text dl text_id text_value result)"
  by (auto simp: keys_covered_def lang_keys_set_text)

lemma keys_covered_set_text:
  "keys_covered dl result \<Longrightarrow> text_id \<in> lang_keys result dl \<Longrightarrow>
   keys_covered dl (set_text lang text_id text_value result)"
  by (auto simp: keys_covered_def lang_keys_set_text)

lemma keys_covered_add_row:
  assumes "keys_covered dl result"
  shows "keys_covered dl (add_row key_idx default_idx dl language_columns cells_dict result)"
proof (cases "default_value_of default_idx cells_dict = []")
  case True
  then show ?thesis using assms by (simp add: add_row_def)
next
  case False
  define text_id where "text_id = text_id_of key_idx default_idx cells_dict"
  define start where
    "start = set_text dl text_id (default_value_of default_idx cells_dict) result"
  have "keys_covered dl start \<and> text_id \<in> lang_keys start dl"
    using assms by (simp add: start_def keys_covered_set_text_default lang_keys_set_text)
  then have "keys_covered dl (foldl (add_language cells_dict text_id) start language_columns)
      \<and> text_id \<in> lang_keys (foldl (add_language cells_dict text_id) start language_columns) dl"
    by (rule foldl_invariant)
       (auto simp: add_language_def Let_def keys_covered_set_text lang_keys_set_text)
  then show ?thesis
    using False by (simp add: add_row_def Let_def text_id_def start_def)
qed

lemma values_nonempty_set_text:
  "values_nonempty result \<Longrightarrow> text_value \<noteq> [] \<Longrightarrow>
   values_nonempty (set_text lang text_id text_value result)"
proof -
  assume ok: "values_nonempty result" and ne: "text_value \<noteq> []"
  have "[] \<notin> lang_values (set_text lang text_id text_value result) lang'" for lang'
  proof
    assume "[] \<in> lang_values (set_text lang text_id text_value result) lang'"
    then have "[] \<in> (if lang' = lang then insert text_value (lang_values result lang)
                       else lang_values result lang')"
      using lang_values_set_text [of lang text_id text_value result lang'] by (rule set_mp [rotated])
    then show False
      using ok ne by (simp add: values_nonempty_def split: if_splits)
  qed
  then show ?thesis
    by (simp add: values_nonempty_def)
qed

lemma values_nonempty_add_row:
  assumes "values_nonempty result"
  shows "values_nonempty (add_row key_idx default_idx dl language_columns cells_dict result)"
proof (cases "default_value_of default_idx cells_dict = []")
  case True
  then show ?thesis using assms by (simp add: add_row_def)
next
  case False
  define text_id where "text_id = text_id_of key_idx default_idx cells_dict"
  define start where
    "start = set_text dl text_id (default_value_of default_idx cells_dict) result"
  have "values_nonempty start"
    using assms False by (simp add: start_def values_nonempty_set_text)
  then have "values_nonempty (foldl (add_language cells_dict text_id) start language_columns)"
    by (rule foldl_invariant) (auto simp: add_language_def Let_def values_nonempty_set_text)
  then show ?thesis
    using False by (simp add: add_row_def Let_def text_id_def start_def)
qed

lemma distinct_add_row:
  assumes "distinct (map fst result)"
  shows "distinct (map fst (add_row key_idx default_idx dl language_columns cells_dict result))"
proof (cases "default_value_of default_idx cells_dict = []")
  case True
  then show ?thesis using assms by (simp add: add_row_def)
next
  case False
  define text_id where "text_id = text_id_of key_idx default_idx cells_dict"
  define start where
    "start = set_text dl text_id (default_value_of default_idx cells_dict) result"
  have "distinct (map fst start)"
    using assms by (simp add: start_def distinct_set_text)
  then have "distinct (map fst (foldl (add_language cells_dict text_id) start language_columns))"
    by (rule foldl_invariant) (auto simp: add_language_def Let_def distinct_set_text)
  then show ?thesis
    using False by (simp add: add_row_def Let_def text_id_def start_def)
qed

lemma extract_archive_distinct:
  "extract_archive opts zip_ref = Inr result \<Longrightarrow> distinct (map fst result)"
  by (rule extract_archive_invariant [where P = "\<lambda>r. distinct (map fst r)"])
     (simp_all add: distinct_add_row)

lemma keys_covered_empty: "keys_covered dl []"
  by (simp add: keys_covered_def lang_keys_def dict_get_def)

lemma values_nonempty_empty: "values_nonempty []"
  by (simp add: values_nonempty_def lang_values_def dict_get_def)

lemma extract_archive_keys_covered:
  assumes "extract_archive opts zip_ref = Inr result"
  shows "keys_covered (default_lang opts) result"
  using _ keys_covered_empty assms
  by (rule extract_archive_invariant) (rule keys_covered_add_row)

lemma extract_archive_values_nonempty:
  assumes "extract_archive opts zip_ref = Inr result"
  shows "values_nonempty result"
  using _ values_nonempty_empty assms
  by (rule extract_archive_invariant) (rule values_nonempty_add_row)

text \<open>
  Claim C3. In the result of a successful conversion, a text key that occurs under any
  language also occurs under the default language: every entry comes from a row with a
  non-empty default text, and the row's default-language entry is stored first.
\<close>

theorem keys_in_default_language:
  assumes "extract_archive opts zip_ref = Inr result"
    and "(lang, texts) \<in> set result"
    and "(text_id, text_value) \<in> set texts"
  shows "\<exists>default_texts default_value.
           (default_lang opts, default_texts) \<in> set result
         \<and> (text_id, default_value) \<in> set default_texts"
proof -
  have texts: "dict_get result lang [] = texts"
    using extract_archive_distinct [OF assms(1)] assms(2) by (rule dict_get_member)
  have "text_id \<in> lang_keys result lang"
    unfolding lang_keys_def texts using assms(3) by (rule image_eqI [rotated]) simp
  moreover have "lang_keys result lang \<subseteq> lang_keys result (default_lang opts)"
    using extract_archive_keys_covered [OF assms(1)] by (simp add: keys_covered_def)
  ultimately have "text_id \<in> lang_keys result (default_lang opts)"
    by (rule set_mp [rotated])
  then obtain default_value where
    entry: "(text_id, default_value) \<in> set (dict_get result (default_lang opts) [])"
    by (auto simp: lang_keys_def)
  then have "dict_get result (default_lang opts) [] \<noteq> []"
    by auto
  then have "(default_lang opts, dict_get result (default_lang opts) []) \<in> set result"
    by (rule dict_get_nonempty_member)
  with entry show ?thesis by blast
qed

lemma extract_archive_no_empty_value:
  assumes "extract_archive opts zip_ref = Inr result"
    and "(lang, texts) \<in> set result"
    and "(text_id, text_value) \<in> set texts"
  shows "text_value \<noteq> []"
proof -
  have texts: "dict_get result lang [] = texts"
    using extract_archive_distinct [OF assms(1)] assms(2) by (rule dict_get_member)
  have "text_value \<in> lang_values result lang"
    unfolding lang_values_def texts using assms(3) by (rule image_eqI [rotated]) simp
  moreover have "[] \<notin> lang_values result lang"
    using extract_archive_values_nonempty [OF assms(1)] by (simp add: values_nonempty_def)
  ultimately show ?thesis by auto
qed


text \<open>The example workbook converts to the example result.\<close>

lemma example_run:
  "extract_archive (default_options ''in.xlsx'' ''out.json'') example_archive = Inr example_result"
  by code_simp

theorem keys_in_default_language_witness:
  "extract_archive (default_options ''in.xlsx'' ''out.json'') example_archive = Inr example_result
   \<and> (''zh-CN'', [(''Hello'', ''two'')]) \<in> set example_result
   \<and> (''Hello'', ''two'') \<in> set [(''Hello'', ''two'')]
   \<and> (\<exists>default_texts default_value.
          (default_lang (default_options ''in.xlsx'' ''out.json''), default_texts) \<in> set example_result
        \<and> (''Hello'', default_value) \<in> set default_texts)"
proof -
  have lang: "(''zh-CN'', [(''Hello'', ''two'')]) \<in> set example_result"
    by (simp add: example_result_def)
  have entry: "(''Hello'', ''two'') \<in> set [(''Hello'', ''two'')]"
    by simp
  show ?thesis
    using example_run lang entry keys_in_default_language [OF example_run lang entry]
    by blast
qed

text \<open>
  Claim C7. The empty string is never stored as a value of the result. A row whose
  trimmed default text is empty leaves the result as it was, and so does a language
  column whose cell in the row is absent, empty or blank.
\<close>

theorem empty_strings_never_stored:
  "(extract_archive opts zip_ref = Inr result \<and> (lang, texts) \<in> set result
      \<and> (text_id, text_value) \<in> set texts \<longrightarrow> text_value \<noteq> [])
   \<and> (default_value_of default_idx cells_dict = [] \<longrightarrow>
        add_row key_idx default_idx dl language_columns cells_dict r = r)
   \<and> (strip (dict_get cells col_idx []) = [] \<longrightarrow>
        add_language cells tid r' (col_idx, lang_code) = r')"
  using extract_archive_no_empty_value [of opts zip_ref result lang texts text_id text_value]
  by (simp add: add_row_def add_language_def)

theorem empty_strings_never_stored_witness:
  "extract_archive (default_options ''in.xlsx'' ''out.json'') example_archive = Inr example_result
   \<and> (''zh-CN'', [(''Hello'', ''two'')]) \<in> set example_result
   \<and> (''Hello'', ''two'') \<in> set [(''Hello'', ''two'')]
   \<and> ''two'' \<noteq> []
   \<and> default_value_of 1 [(0, ''skipped''), (1, ideographic_space), (2, ''x'')] = []
   \<and> add_row (Some 0) 1 ''en'' [(2, ''zh-CN'')]
        [(0, ''skipped''), (1, ideographic_space), (2, ''x'')] example_result
       = example_result
   \<and> strip (dict_get [(0::int, ''bye''), (1, ''Goodbye''), (2, CHR '' '' # ideographic_space)] 2 [])
       = []
   \<and> add_language [(0, ''bye''), (1, ''Goodbye''), (2, CHR '' '' # ideographic_space)] ''bye''
       example_result (2, ''zh-CN'')
       = example_result"
proof -
  have lang: "(''zh-CN'', [(''Hello'', ''two'')]) \<in> set example_result"
    by (simp add: example_result_def)
  have entry: "(''Hello'', ''two'') \<in> set [(''Hello'', ''two'')]"
    by simp
  have no_default: "default_value_of 1 [(0, ''skipped''), (1, ideographic_space), (2, ''x'')] = []"
    by code_simp
  have blank: "strip (dict_get [(0::int, ''bye''), (1, ''Goodbye''), (2, CHR '' '' # ideographic_space)] 2 [])
       = []"
    by code_simp
  show ?thesis
    using example_run lang entry no_default blank
      empty_strings_never_stored [where opts = "default_options ''in.xlsx'' ''out.json''"
        and zip_ref = example_archive and result = example_result and lang = "''zh-CN''"
        and texts = "[(''Hello'', ''two'')]" and text_id = "''Hello''" and text_value = "''two''"
        and default_idx = 1 and cells_dict = "[(0, ''skipped''), (1, ideographic_space), (2, ''x'')]"
        and key_idx = "Some 0" and dl = "''en''" and language_columns = "[(2, ''zh-CN'')]"
        and r = example_result and cells = "[(0, ''bye''), (1, ''Goodbye''), (2, CHR '' '' # ideographic_space)]"
        and col_idx = 2 and tid = "''bye''" and r' = example_result and lang_code = "''zh-CN''"]
    by blast
qed

section \<open>The end of the row range\<close>

text \<open>A row inside the range is parsed and added; a row outside it changes nothing.\<close>

lemma extract_row_range:
  assumes "row_r row_elem = Some r" and "py_int r = Some row_num"
  shows "extract_row ex row_elem result =
           (if ex_start_row ex \<le> row_num \<and> row_num \<le> ex_actual_end_row ex
            then (case parse_row row_elem (ex_shared_strings ex) (ex_max_col ex) of
                    Inl e \<Rightarrow> Inl e
                  | Inr cells_dict \<Rightarrow>
                      Inr (add_row (ex_key_idx ex) (ex_default_idx ex) (ex_default_lang ex)
                             (ex_language_columns ex) cells_dict result))
            else Inr result)"
  using assms by (simp add: extract_row_def)

lemma actual_end_row_given:
  "e \<noteq> 0 \<Longrightarrow> actual_end_row_of (Some e) rows = e"
  by (simp add: actual_end_row_of_def)

text \<open>
  Claim C2. A row contributes when its number is between \<open>start_row\<close> and \<open>end_row\<close>,
  and without \<open>end_row\<close> the range ends at the last row of the sheet. Here the code
  differs: without \<open>end_row\<close> the bound is the count of row elements. In a sheet with
  row elements 1 and 3 only, the bound is 2 and row 3, the last row, is left out; with
  \<open>end_row = 3\<close> given, the row contributes.
\<close>

theorem end_row_default_on_sparse_rows:
  "actual_end_row_of None sparse_rows = 2
   \<and> extract_archive (default_options ''in.xlsx'' ''out.json'') (one_sheet [] sparse_rows) = Inr []
   \<and> extract_archive ((default_options ''in.xlsx'' ''out.json'')\<lparr>end_row := Some 3\<rparr>)
        (one_sheet [] sparse_rows) = Inr [(''en'', [(''bye'', ''Goodbye'')])]"
  by code_simp

section \<open>Shared strings\<close>

text \<open>
  Claim C4. A shared-string cell takes the entry of the shared strings at its index,
  and a cell whose index is out of range is left out without an error. Here the code
  differs for a negative index: with five shared strings, the index \<open>-6\<close> raises
  \<open>IndexError\<close> and the index \<open>-1\<close> takes the last entry. The index 2 takes the third
  entry and the index 5 leaves the cell out, as claimed.
\<close>

theorem shared_string_negative_index:
  "parse_row \<lparr>row_r = Some ''2'', row_cells = [shared_cell ''A2'' ''-6'']\<rparr> example_strings 100
     = Inl IndexError
   \<and> parse_row \<lparr>row_r = Some ''2'', row_cells = [shared_cell ''A2'' ''-1'']\<rparr> example_strings 100
     = Inr [(0, ''four'')]
   \<and> parse_row \<lparr>row_r = Some ''2'', row_cells = [shared_cell ''A2'' ''2'']\<rparr> example_strings 100
     = Inr [(0, ''two'')]
   \<and> parse_row \<lparr>row_r = Some ''2'', row_cells = [shared_cell ''A2'' ''5'']\<rparr> example_strings 100
     = Inr []"
  by code_simp

text \<open>For an index that is not negative, the cell is resolved as claimed.\<close>

lemma parse_cell_shared_string:
  assumes "cell_r c = Some cell_ref" and "cell_t c = Some ''s''" and "cell_v c = Some v_text"
    and "v_text \<noteq> []" and "py_int v_text = Some idx" and "0 \<le> idx"
    and "get_column_index (filter isalpha cell_ref) \<le> max_col"
  shows "parse_cell c shared_strings max_col cells_dict =
           (if idx < int (length shared_strings)
            then Inr (AList.update (get_column_index (filter isalpha cell_ref))
                        (shared_strings ! nat idx) cells_dict)
            else Inr cells_dict)"
  using assms by (simp add: parse_cell_def py_index_def Let_def)

section \<open>The converter and the output file\<close>

lemma list_index_None: "list_index xs x = None \<longleftrightarrow> x \<notin> set xs"
  by (induction xs) auto

lemma convert_missing_default:
  assumes "fs (input_path opts) = Some (Zip zip_ref)"
    and "find_sheet_path zip_ref (sheet_name opts) = Inr (sheet_path, actual_sheet_name)"
    and "map_of (members zip_ref) sheet_path = Some (first_row_elem # rest)"
    and "parse_row first_row_elem (load_shared_strings zip_ref) 100 = Inr header_cells"
    and "default_column opts \<notin> set (build_headers header_cells)"
  shows "convert_to_i18n_json opts fs = (Some ValueError, fs)"
proof -
  have "list_index (build_headers header_cells) (default_column opts) = None"
    using assms(5) by (simp add: list_index_None)
  then have "extract_sheet opts (load_shared_strings zip_ref) (first_row_elem # rest) = Inl ValueError"
    using assms(4) by (simp add: extract_sheet_def)
  then have "extract_archive opts zip_ref = Inl ValueError"
    using assms(2,3) by (simp add: extract_archive_def)
  then show ?thesis
    using assms(1) by (simp add: convert_to_i18n_json_def)
qed

lemma convert_failure_keeps_files:
  "fst (convert_to_i18n_json opts fs) \<noteq> None \<Longrightarrow> snd (convert_to_i18n_json opts fs) = fs"
  by (auto simp: convert_to_i18n_json_def split: option.splits file_content.splits sum.splits)

lemma convert_success:
  assumes "fst (convert_to_i18n_json opts fs) = None"
  obtains zip_ref result where "fs (input_path opts) = Some (Zip zip_ref)"
    and "extract_archive opts zip_ref = Inr result"
    and "snd (convert_to_i18n_json opts fs) = fs(output_path opts \<mapsto> Other (json_dump result))"
  using assms
  by (auto simp: convert_to_i18n_json_def split: option.splits file_content.splits sum.splits)

text \<open>
  Claim C5. When the parsed header row has no header equal to the default column's
  name, the converter fails with \<open>ValueError\<close> (a validation error) and leaves the
  file system as it was. More generally, a run that fails writes nothing, and a run
  that succeeds has extracted all rows and written exactly the serialised result to
  the output path.
\<close>

theorem output_written_only_on_success:
  "(fs (input_path opts) = Some (Zip zip_ref)
      \<and> find_sheet_path zip_ref (sheet_name opts) = Inr (sheet_path, actual_sheet_name)
      \<and> map_of (members zip_ref) sheet_path = Some (first_row_elem # rest)
      \<and> parse_row first_row_elem (load_shared_strings zip_ref) 100 = Inr header_cells
      \<and> default_column opts \<notin> set (build_headers header_cells)
     \<longrightarrow> convert_to_i18n_json opts fs = (Some ValueError, fs))
   \<and> (fst (convert_to_i18n_json opts fs) \<noteq> None \<longrightarrow> snd (convert_to_i18n_json opts fs) = fs)
   \<and> (fst (convert_to_i18n_json opts fs) = None \<longrightarrow>
        (\<exists>z result. fs (input_path opts) = Some (Zip z)
           \<and> extract_archive opts z = Inr result
           \<and> snd (convert_to_i18n_json opts fs)
               = fs(output_path opts \<mapsto> Other (json_dump result))))"
proof (intro conjI impI)
  assume "fs (input_path opts) = Some (Zip zip_ref)
      \<and> find_sheet_path zip_ref (sheet_name opts) = Inr (sheet_path, actual_sheet_name)
      \<and> map_of (members zip_ref) sheet_path = Some (first_row_elem # rest)
      \<and> parse_row first_row_elem (load_shared_strings zip_ref) 100 = Inr header_cells
      \<and> default_column opts \<notin> set (build_headers header_cells)"
  then show "convert_to_i18n_json opts fs = (Some ValueError, fs)"
    using convert_missing_default by blast
next
  assume "fst (convert_to_i18n_json opts fs) \<noteq> None"
  then show "snd (convert_to_i18n_json opts fs) = fs"
    by (rule convert_failure_keeps_files)
next
  assume "fst (convert_to_i18n_json opts fs) = None"
  then show "\<exists>z result. fs (input_path opts) = Some (Zip z)
           \<and> extract_archive opts z = Inr result
           \<and> snd (convert_to_i18n_json opts fs)
               = fs(output_path opts \<mapsto> Other (json_dump result))"
    by (rule convert_success) blast
qed

text \<open>The sheet of the workbook without a default column, and its header row.\<close>

lemma no_default_sheet:
  "find_sheet_path (one_sheet [] no_default_rows) None = Inr (''xl/worksheets/sheet1.xml'', ''Sheet1'')
   \<and> parse_row (hd no_default_rows) (load_shared_strings (one_sheet [] no_default_rows)) 100
       = Inr [(0, ''key''), (1, ''en'')]
   \<and> build_headers [(0, ''key''), (1, ''en'')] = [''key'', ''en'']"
  by code_simp

theorem output_written_only_on_success_witness:
  "convert_to_i18n_json (default_options ''in.xlsx'' ''out.json'')
      (single_file ''in.xlsx'' (one_sheet [] no_default_rows))
     = (Some ValueError, single_file ''in.xlsx'' (one_sheet [] no_default_rows))
   \<and> fst (convert_to_i18n_json (default_options ''in.xlsx'' ''out.json'')
             (single_file ''in.xlsx'' example_archive)) = None
   \<and> snd (convert_to_i18n_json (default_options ''in.xlsx'' ''out.json'')
             (single_file ''in.xlsx'' example_archive)) ''out.json''
       = Some (Other (json_dump example_result))"
proof -
  let ?opts = "default_options ''in.xlsx'' ''out.json''"
  let ?bad = "single_file ''in.xlsx'' (one_sheet [] no_default_rows)"
  let ?good = "single_file ''in.xlsx'' example_archive"
  have bad_file: "?bad (input_path ?opts) = Some (Zip (one_sheet [] no_default_rows))"
    by (simp add: single_file_def default_options_def)
  have sheet: "find_sheet_path (one_sheet [] no_default_rows) (sheet_name ?opts)
      = Inr (''xl/worksheets/sheet1.xml'', ''Sheet1'')"
    using no_default_sheet by (simp add: default_options_def)
  have rows: "map_of (members (one_sheet [] no_default_rows)) ''xl/worksheets/sheet1.xml''
      = Some (hd no_default_rows # tl no_default_rows)"
    by (simp add: one_sheet_def no_default_rows_def)
  have header: "parse_row (hd no_default_rows) (load_shared_strings (one_sheet [] no_default_rows)) 100
      = Inr [(0, ''key''), (1, ''en'')]"
    using no_default_sheet by simp
  have missing: "default_column ?opts \<notin> set (build_headers [(0, ''key''), (1, ''en'')])"
    using no_default_sheet by (simp add: default_options_def)
  have failed: "convert_to_i18n_json ?opts ?bad = (Some ValueError, ?bad)"
    using output_written_only_on_success [where opts = ?opts and fs = ?bad
        and zip_ref = "one_sheet [] no_default_rows" and sheet_path = "''xl/worksheets/sheet1.xml''"
        and actual_sheet_name = "''Sheet1''" and first_row_elem = "hd no_default_rows"
        and rest = "tl no_default_rows" and header_cells = "[(0, ''key''), (1, ''en'')]"]
      bad_file sheet rows header missing
    by blast
  have good_run: "convert_to_i18n_json ?opts ?good
      = (None, ?good(''out.json'' \<mapsto> Other (json_dump example_result)))"
    using example_run by (simp add: convert_to_i18n_json_def single_file_def default_options_def)
  then have ok: "fst (convert_to_i18n_json ?opts ?good) = None"
    by simp
  from output_written_only_on_success [where opts = ?opts and fs = ?good] ok
  obtain z result where "?good (input_path ?opts) = Some (Zip z)"
    and "extract_archive ?opts z = Inr result"
    and "snd (convert_to_i18n_json ?opts ?good) = ?good(output_path ?opts \<mapsto> Other (json_dump result))"
    by blast
  then have "snd (convert_to_i18n_json ?opts ?good) ''out.json'' = Some (Other (json_dump example_result))"
    using example_run by (simp add: single_file_def default_options_def)
  with failed ok show ?thesis
    by blast
qed

section \<open>Language columns\<close>

text \<open>The language columns are the headers that pass the test, each with its tag.\<close>

lemma language_columns_member:
  "(idx, lang_code) \<in> set (language_columns_of opts headers) \<longleftrightarrow>
     (\<exists>i<length headers. idx = int i \<and> is_language_header opts (headers ! i)
        \<and> lang_code = lang_code_of (use_abbrev opts) (headers ! i))"
  by (auto simp: language_columns_of_def in_set_enumerate_eq image_iff)

lemma language_columns_index:
  assumes "i < length headers"
  shows "int i \<in> fst ` set (language_columns_of opts headers)
           \<longleftrightarrow> is_language_header opts (headers ! i)"
proof
  assume "int i \<in> fst ` set (language_columns_of opts headers)"
  then obtain lang_code where "(int i, lang_code) \<in> set (language_columns_of opts headers)"
    by auto
  then show "is_language_header opts (headers ! i)"
    by (auto simp: language_columns_member)
next
  assume "is_language_header opts (headers ! i)"
  then have "(int i, lang_code_of (use_abbrev opts) (headers ! i))
      \<in> set (language_columns_of opts headers)"
    using assms unfolding language_columns_member by blast
  then show "int i \<in> fst ` set (language_columns_of opts headers)"
    by (rule image_eqI [rotated]) simp
qed

text \<open>The two replacements of the source amount to the one pass of the specification.\<close>

lemma replace_normalizes:
  "replace ''_'' ''-'' (replace ''_r'' ''-'' s) = spec_normalize_tag s"
  by (induction s rule: spec_normalize_tag.induct) (auto simp: startswith_def)

text \<open>
  Claim C6. With abbreviation enabled, the tag of a language column is its header
  with every \<open>_r\<close> replaced by a hyphen and every remaining underscore replaced by a
  hyphen, so that \<open>zh_rCN\<close> gives \<open>zh-CN\<close>; with abbreviation disabled the tag is the
  header unchanged, so that \<open>zh_rCN\<close> stays \<open>zh_rCN\<close>.
\<close>

theorem language_tag_normalization:
  "((idx, lang_code) \<in> set (language_columns_of opts headers) \<longrightarrow>
      (\<exists>i<length headers. idx = int i
         \<and> lang_code = (if use_abbrev opts then spec_normalize_tag (headers ! i) else headers ! i)))
   \<and> lang_code_of True header = spec_normalize_tag header
   \<and> lang_code_of False header = header
   \<and> lang_code_of True ''zh_rCN'' = ''zh-CN''
   \<and> lang_code_of False ''zh_rCN'' = ''zh_rCN''"
proof -
  have tag: "lang_code_of abbrev h = (if abbrev then spec_normalize_tag h else h)" for abbrev h
    by (simp add: lang_code_of_def replace_normalizes)
  have "\<exists>i<length headers. idx = int i
         \<and> lang_code = (if use_abbrev opts then spec_normalize_tag (headers ! i) else headers ! i)"
    if "(idx, lang_code) \<in> set (language_columns_of opts headers)"
    using that unfolding language_columns_member tag by blast
  moreover have "spec_normalize_tag ''zh_rCN'' = ''zh-CN''"
    by simp
  ultimately show ?thesis
    by (simp add: tag)
qed

theorem language_tag_normalization_witness:
  "(2, ''zh-CN'') \<in> set (language_columns_of (default_options ''in.xlsx'' ''out.json'')
                           [''key'', ''default'', ''zh_rCN'', ''col_fr''])
   \<and> (2, ''zh_rCN'') \<in> set (language_columns_of
                           ((default_options ''in.xlsx'' ''out.json'')\<lparr>use_abbrev := False\<rparr>)
                           [''key'', ''default'', ''zh_rCN'', ''col_fr''])
   \<and> (\<exists>i<length [''key'', ''default'', ''zh_rCN'', ''col_fr'']. (2::int) = int i
         \<and> ''zh-CN'' = spec_normalize_tag ([''key'', ''default'', ''zh_rCN'', ''col_fr''] ! i))"
proof -
  let ?opts = "default_options ''in.xlsx'' ''out.json''"
  let ?headers = "[''key'', ''default'', ''zh_rCN'', ''col_fr'']"
  have on: "language_columns_of ?opts ?headers = [(2, ''zh-CN'')]"
    by code_simp
  have off: "language_columns_of (?opts\<lparr>use_abbrev := False\<rparr>) ?headers = [(2, ''zh_rCN'')]"
    by code_simp
  have member: "(2, ''zh-CN'') \<in> set (language_columns_of ?opts ?headers)"
    by (simp add: on)
  have abbrev: "use_abbrev ?opts"
    by (simp add: default_options_def)
  from language_tag_normalization [where opts = ?opts and headers = ?headers
      and idx = 2 and lang_code = "''zh-CN''"] member abbrev
  have "\<exists>i<length ?headers. (2::int) = int i \<and> ''zh-CN'' = spec_normalize_tag (?headers ! i)"
    by simp
  then show ?thesis
    using member by (simp add: off)
qed

lemma startswith_append: "startswith (p @ s) p"
  by (simp add: startswith_def)

text \<open>
  Claim C10. A column whose header starts with \<open>col_\<close> is never a language column,
  whether the header is a placeholder made up for a gap or a header of the sheet:
  a column is a language column exactly when its header is non-empty, is not a meta
  column and does not start with \<open>col_\<close>, and the placeholder of a column without
  header text starts with \<open>col_\<close>.
\<close>

theorem col_prefix_never_language:
  "(i < length headers \<and> startswith (headers ! i) ''col_'' \<longrightarrow>
      int i \<notin> fst ` set (language_columns_of opts headers))
   \<and> (i < length headers \<longrightarrow>
        (int i \<in> fst ` set (language_columns_of opts headers) \<longleftrightarrow>
           headers ! i \<noteq> [] \<and> headers ! i \<notin> meta_columns opts
           \<and> \<not> startswith (headers ! i) ''col_''))
   \<and> (strip (dict_get header_cells j []) = [] \<longrightarrow>
        startswith (header_at header_cells j) ''col_'')"
  using startswith_append [of "''col_''" "str_int j"]
  by (simp add: language_columns_index is_language_header_def header_at_def Let_def)

theorem col_prefix_never_language_witness:
  "3 < length [''key'', ''default'', ''zh_rCN'', ''col_fr'']
   \<and> startswith ([''key'', ''default'', ''zh_rCN'', ''col_fr''] ! 3) ''col_''
   \<and> int 3 \<notin> fst ` set (language_columns_of (default_options ''in.xlsx'' ''out.json'')
                            [''key'', ''default'', ''zh_rCN'', ''col_fr''])
   \<and> strip (dict_get [(0::int, ''key''), (2, ''fr'')] 1 []) = []
   \<and> startswith (header_at [(0, ''key''), (2, ''fr'')] 1) ''col_''
   \<and> build_headers [(0, ''key''), (2, ''fr'')] = [''key'', ''col_1'', ''fr'']
   \<and> extract_archive (default_options ''in.xlsx'' ''out.json'') example_archive
       = Inr example_result"
proof -
  let ?opts = "default_options ''in.xlsx'' ''out.json''"
  let ?headers = "[''key'', ''default'', ''zh_rCN'', ''col_fr'']"
  have len: "3 < length ?headers"
    by simp
  have pre: "startswith (?headers ! 3) ''col_''"
    by code_simp
  have gap: "strip (dict_get [(0::int, ''key''), (2, ''fr'')] 1 []) = []"
    by code_simp
  have built: "build_headers [(0, ''key''), (2, ''fr'')] = [''key'', ''col_1'', ''fr'']"
    by code_simp
  show ?thesis
    using len pre gap built example_run
      col_prefix_never_language [where i = 3 and headers = ?headers and opts = ?opts
        and header_cells = "[(0, ''key''), (2, ''fr'')]" and j = 1]
    by blast
qed

section \<open>The key of a row\<close>

text \<open>A row with a default text is stored under its key in the default language.\<close>

lemma add_row_default_key:
  assumes "default_value_of default_idx cells_dict \<noteq> []"
  shows "text_id_of key_idx default_idx cells_dict
           \<in> lang_keys (add_row key_idx default_idx dl language_columns cells_dict result) dl"
proof -
  define text_id where "text_id = text_id_of key_idx default_idx cells_dict"
  define start where
    "start = set_text dl text_id (default_value_of default_idx cells_dict) result"
  have "text_id \<in> lang_keys start dl"
    by (simp add: start_def lang_keys_set_text)
  then have "text_id \<in> lang_keys (foldl (add_language cells_dict text_id) start language_columns) dl"
    by (rule foldl_invariant) (auto simp: add_language_def Let_def lang_keys_set_text)
  then show ?thesis
    using assms by (simp add: add_row_def Let_def text_id_def start_def)
qed

text \<open>
  Claim C8 says that the key of a row is the trimmed value of the key column when that
  value is non-empty, or when the key column exists in the headers at all. The second
  alternative fails: with the key column in the headers and no key in the row, the key
  is the default text \<open>Hello\<close>, not the empty key value.
\<close>

theorem self_keying_counterexample:
  "''key'' \<in> set (build_headers [(0, ''key''), (1, ''default'')])
   \<and> list_index (build_headers [(0, ''key''), (1, ''default'')]) ''key'' = Some 0
   \<and> key_value_of (Some 0) [(1, ''Hello'')] = []
   \<and> text_id_of (Some 0) 1 [(1, ''Hello'')] = ''Hello''
   \<and> text_id_of (Some 0) 1 [(1, ''Hello'')] \<noteq> key_value_of (Some 0) [(1, ''Hello'')]"
  by code_simp

text \<open>
  Claim C8, amended. The key of a row is the trimmed value of the key column when the
  key column exists in the headers and that value is non-empty, and the trimmed
  default text otherwise, also when the key column exists and the row's key cell is
  absent or blank (be it an ASCII blank or a no-break space). A row with a default
  text is stored under that key in the default language; a row with an empty key and
  the default text \<open>Hello\<close> gives the entry \<open>Hello: Hello\<close> there.
\<close>

theorem effective_key:
  "text_id_of key_idx default_idx cells_dict =
     (if key_idx \<noteq> None \<and> key_value_of key_idx cells_dict \<noteq> []
      then key_value_of key_idx cells_dict
      else default_value_of default_idx cells_dict)
   \<and> (default_value_of default_idx cells_dict \<noteq> [] \<longrightarrow>
        text_id_of key_idx default_idx cells_dict
          \<in> lang_keys (add_row key_idx default_idx dl language_columns cells_dict result) dl)
   \<and> add_row (Some 0) 1 ''en'' [] [(1, ''Hello'')] [] = [(''en'', [(''Hello'', ''Hello'')])]
   \<and> add_row (Some 0) 1 ''en'' [] [(0, '' ''), (1, ''Hello'')] [] = [(''en'', [(''Hello'', ''Hello'')])]
   \<and> add_row (Some 0) 1 ''en'' [] [(0, nbsp), (1, ''Hello'' @ ideographic_space)] []
       = [(''en'', [(''Hello'', ''Hello'')])]"
proof -
  have key: "text_id_of key_idx default_idx cells_dict =
     (if key_idx \<noteq> None \<and> key_value_of key_idx cells_dict \<noteq> []
      then key_value_of key_idx cells_dict
      else default_value_of default_idx cells_dict)"
    by (cases key_idx) (simp_all add: text_id_of_def key_value_of_def Let_def)
  have examples: "add_row (Some 0) 1 ''en'' [] [(1, ''Hello'')] [] = [(''en'', [(''Hello'', ''Hello'')])]
     \<and> add_row (Some 0) 1 ''en'' [] [(0, '' ''), (1, ''Hello'')] [] = [(''en'', [(''Hello'', ''Hello'')])]
     \<and> add_row (Some 0) 1 ''en'' [] [(0, nbsp), (1, ''Hello'' @ ideographic_space)] []
         = [(''en'', [(''Hello'', ''Hello'')])]"
    by code_simp
  show ?thesis
    using key examples add_row_default_key by blast
qed

theorem effective_key_witness:
  "default_value_of 1 [(0, ''bye''), (1, ''Goodbye'')] \<noteq> []
   \<and> text_id_of (Some 0) 1 [(0, ''bye''), (1, ''Goodbye'')] = ''bye''
   \<and> ''bye'' \<in> lang_keys (add_row (Some 0) 1 ''en'' [(2, ''zh-CN'')]
                              [(0, ''bye''), (1, ''Goodbye'')] []) ''en''
   \<and> text_id_of (Some 0) 1 [(0, nbsp), (1, '' Hello'' @ nbsp)] = ''Hello''"
proof -
  have dv: "default_value_of 1 [(0, ''bye''), (1, ''Goodbye'')] \<noteq> []"
    by code_simp
  have tid: "text_id_of (Some 0) 1 [(0, ''bye''), (1, ''Goodbye'')] = ''bye''"
    by code_simp
  have "text_id_of (Some 0) 1 [(0, ''bye''), (1, ''Goodbye'')]
      \<in> lang_keys (add_row (Some 0) 1 ''en'' [(2, ''zh-CN'')]
                     [(0, ''bye''), (1, ''Goodbye'')] []) ''en''"
    using dv effective_key [where key_idx = "Some 0" and default_idx = 1
        and cells_dict = "[(0, ''bye''), (1, ''Goodbye'')]" and dl = "''en''"
        and language_columns = "[(2, ''zh-CN'')]" and result = "[]"]
    by blast
  moreover have "text_id_of (Some 0) 1 [(0, nbsp), (1, '' Hello'' @ nbsp)] = ''Hello''"
    by code_simp
  ultimately show ?thesis
    using dv tid by simp
qed

end
